theory Spec2Isabelle
  imports Complex_Main
begin

section \<open>JavaScript numbers\<close>

text \<open>
  The repository holds several variants of one Express server that mixes background
  clips into a main audio track with ffmpeg. The variants modelled here are
  \<^item> the plain variant (\<^verbatim>\<open>src/unnamed/part_000\<close>, first and second file): volume,
    trim to a duration, delay, then a mix that lasts as long as the main track;
  \<^item> the fade variant (\<^verbatim>\<open>src/beckand/index.js\<close>): trim to a window, volume, half a
    second of fade-out, delay, with the clips mixed among themselves first;
  \<^item> the random variant (\<^verbatim>\<open>src/unnamed/part_001\<close>): a random delay, a fixed span
    of four seconds and a fixed volume;
  \<^item> the download route of the second file of \<^verbatim>\<open>part_000\<close>, which trims a rendered
    file against the uploaded main track.

  A JavaScript number is \<open>NaN\<close>, an infinity, or a finite double, kept as the real
  number it stands for. The sign of zero is not kept.
\<close>

datatype jsnum = NaN | NegInf | Fin real | PosInf

text \<open>
  The result of an arithmetic operation is the exact result rounded to the nearest
  double, ties going to the even significand: \<open>binary64\<close>. A double has 53
  significant bits, its least exponent is -1022, below which the spacing stays
  \<open>2 powi (- 1074)\<close>, and a rounded magnitude of \<open>2 ^ 1024\<close> or more is an infinity.
\<close>

definition round_half_even :: "real \<Rightarrow> int" where
  "round_half_even x =
     (let f = \<lfloor>x\<rfloor>; r = x - of_int f
      in if r < 1/2 then f else if 1/2 < r then f + 1 else if even f then f else f + 1)"

definition binary64 :: "real \<Rightarrow> jsnum" where
  "binary64 x =
     (if x = 0 then Fin 0
      else
        (let e = max \<lfloor>log 2 \<bar>x\<bar>\<rfloor> (- 1022);
             q = 2 powi (e - 52);
             r = of_int (round_half_even (x / q)) * q
         in if 2 ^ 1024 \<le> r then PosInf
            else if r \<le> - (2 ^ 1024) then NegInf
            else Fin r))"

text \<open>Negation, \<open>a + b\<close>, \<open>a - b\<close> and \<open>a * b\<close> on numbers.\<close>

fun js_neg :: "jsnum \<Rightarrow> jsnum" where
  "js_neg NaN = NaN"
| "js_neg NegInf = PosInf"
| "js_neg (Fin a) = Fin (- a)"
| "js_neg PosInf = NegInf"

fun js_plus :: "jsnum \<Rightarrow> jsnum \<Rightarrow> jsnum" where
  "js_plus (Fin a) (Fin b) = binary64 (a + b)"
| "js_plus NaN b = NaN"
| "js_plus a NaN = NaN"
| "js_plus PosInf NegInf = NaN"
| "js_plus NegInf PosInf = NaN"
| "js_plus PosInf b = PosInf"
| "js_plus a PosInf = PosInf"
| "js_plus NegInf b = NegInf"
| "js_plus a NegInf = NegInf"

definition js_minus :: "jsnum \<Rightarrow> jsnum \<Rightarrow> jsnum" where
  "js_minus a b = js_plus a (js_neg b)"

fun is_positive :: "jsnum \<Rightarrow> bool" where
  "is_positive (Fin a) = (0 < a)"
| "is_positive PosInf = True"
| "is_positive NegInf = False"
| "is_positive NaN = False"

definition js_times :: "jsnum \<Rightarrow> jsnum \<Rightarrow> jsnum" where
  "js_times a b =
     (case (a, b) of
        (Fin x, Fin y) \<Rightarrow> binary64 (x * y)
      | _ \<Rightarrow>
          if a = NaN \<or> b = NaN \<or> a = Fin 0 \<or> b = Fin 0 then NaN
          else if is_positive a = is_positive b then PosInf
          else NegInf)"

text \<open>\<open>Math.min\<close> of two numbers and \<open>Math.floor\<close>: \<open>NaN\<close> goes through both.\<close>

fun Math_min :: "jsnum \<Rightarrow> jsnum \<Rightarrow> jsnum" where
  "Math_min (Fin a) (Fin b) = Fin (min a b)"
| "Math_min NaN b = NaN"
| "Math_min a NaN = NaN"
| "Math_min NegInf b = NegInf"
| "Math_min a NegInf = NegInf"
| "Math_min PosInf b = b"
| "Math_min a PosInf = a"

fun Math_floor :: "jsnum \<Rightarrow> jsnum" where
  "Math_floor (Fin a) = Fin (of_int \<lfloor>a\<rfloor>)"
| "Math_floor a = a"

section \<open>JavaScript values\<close>

text \<open>
  What a field of a metadata entry can hold after \<open>JSON.parse\<close>: nothing
  (\<open>undefined\<close>), \<open>null\<close>, a boolean, a number, a string, or an array or object. The
  servers never look at the type; they test the value for truth and hand it to
  \<open>Math.min\<close>, to an arithmetic operator or to \<open>parseFloat\<close>, which convert it. A
  string is kept with the two numbers these conversions read it as: \<open>Number(s)\<close>
  first, then \<open>parseFloat(s)\<close>; so \<open>"0"\<close> is \<open>Text ''0'' (Fin 0) (Fin 0)\<close>, \<open>"abc"\<close> is
  \<open>Text ''abc'' NaN NaN\<close> and \<open>"5abc"\<close> is \<open>Text ''5abc'' NaN (Fin 5)\<close>. An array or
  object is kept as these two numbers alone: \<open>[]\<close> is \<open>Compound (Fin 0) NaN\<close>.
\<close>

datatype jsval =
    Undefined
  | Null
  | Boolean bool
  | Number jsnum
  | Text string jsnum jsnum
  | Compound jsnum jsnum

text \<open>
  Truth: \<open>undefined\<close>, \<open>null\<close>, \<open>false\<close>, \<open>0\<close>, \<open>NaN\<close> and the empty string are falsy,
  everything else is truthy.
\<close>

fun truthy :: "jsval \<Rightarrow> bool" where
  "truthy Undefined = False"
| "truthy Null = False"
| "truthy (Boolean b) = b"
| "truthy (Number n) = (n \<noteq> NaN \<and> n \<noteq> Fin 0)"
| "truthy (Text s n p) = (s \<noteq> [])"
| "truthy (Compound n p) = True"

text \<open>The conversion to a number that \<open>Math.min\<close>, \<open>*\<close> and \<open>-\<close> apply to an operand.\<close>

fun ToNumber :: "jsval \<Rightarrow> jsnum" where
  "ToNumber Undefined = NaN"
| "ToNumber Null = Fin 0"
| "ToNumber (Boolean b) = (if b then Fin 1 else Fin 0)"
| "ToNumber (Number n) = n"
| "ToNumber (Text s n p) = n"
| "ToNumber (Compound n p) = n"

text \<open>
  \<open>parseFloat\<close> prints its argument and reads a number off the front of the text:
  \<open>undefined\<close>, \<open>null\<close> and the booleans print as words and give \<open>NaN\<close>, a number is
  read back as it was.
\<close>

fun parseFloat :: "jsval \<Rightarrow> jsnum" where
  "parseFloat Undefined = NaN"
| "parseFloat Null = NaN"
| "parseFloat (Boolean b) = NaN"
| "parseFloat (Number n) = n"
| "parseFloat (Text s n p) = p"
| "parseFloat (Compound n p) = p"

text \<open>\<open>x || d\<close>: \<open>x\<close> when it is truthy, \<open>d\<close> otherwise.\<close>

definition or_default :: "jsval \<Rightarrow> jsval \<Rightarrow> jsval" where
  "or_default x d = (if truthy x then x else d)"

text \<open>
  A metadata entry that is an object, read at the three fields the servers use; a
  field the object lacks is \<open>undefined\<close>.
\<close>

record bg_metadata =
  timestamp :: jsval
  duration :: jsval
  volume :: jsval

text \<open>The object literal \<open>{}\<close>: every field is \<open>undefined\<close>.\<close>

definition empty_object :: bg_metadata where
  "empty_object = \<lparr>timestamp = Undefined, duration = Undefined, volume = Undefined\<rparr>"

text \<open>
  \<open>backgroundAudioMetadata[index] || {}\<close> on an array. An entry is an object
  (\<open>Some\<close>) or anything else (\<open>None\<close>): \<open>null\<close>, a number, a string, an array. An
  index past the end reads \<open>undefined\<close>. A falsy entry is replaced by \<open>{}\<close>, and a
  truthy entry that is not an object has none of the three fields, like \<open>{}\<close>.
\<close>

definition metadata_at :: "bg_metadata option list \<Rightarrow> nat \<Rightarrow> bg_metadata" where
  "metadata_at backgroundAudioMetadata index =
     (if index < length backgroundAudioMetadata
      then (case backgroundAudioMetadata ! index of None \<Rightarrow> empty_object | Some m \<Rightarrow> m)
      else empty_object)"

section \<open>Files and paths\<close>

text \<open>
  The three directories the servers create beside their source file. A path is a
  directory with a plain file name, and \<open>path.join\<close> pairs them: names holding
  separators or dot segments are outside this model.
\<close>

datatype dir = UploadsDir | PublicDir | OutputDir

type_synonym fpath = "dir \<times> string"

definition path_join :: "dir \<Rightarrow> string \<Rightarrow> fpath" where
  "path_join d name = (d, name)"

text \<open>An uploaded file as multer describes it: where it was stored and its name.\<close>

record upload =
  path :: fpath
  originalname :: string

text \<open>What a promise of the servers is rejected with.\<close>

datatype error =
    Ffprobe_error string              \<comment> \<open>the error of a failed probe\<close>
  | Ffmpeg_error string               \<comment> \<open>the error of a failed run\<close>
  | Main_audio_not_found fpath        \<comment> \<open>\<open>Main audio file not found: ...\<close>\<close>
  | Short_audio_not_found fpath       \<comment> \<open>\<open>Short audio file not found: ...\<close>\<close>

section \<open>Filter graphs\<close>

text \<open>
  The servers hand ffmpeg a list of filter chains written as strings. A chain is kept
  here as its input labels, its filters with their arguments as numbers, and its
  output label; the printing of numbers into the string is not modelled.
\<close>

datatype label =
    Stream nat      \<comment> \<open>\<open>N:a\<close>, the audio of input \<open>N\<close>\<close>
  | Delayed nat     \<comment> \<open>\<open>delayedN\<close>\<close>
  | Bg nat          \<comment> \<open>\<open>bgN\<close>\<close>
  | DelayedBg nat   \<comment> \<open>\<open>delayedbgN\<close>\<close>
  | Bgmix
  | MainL           \<comment> \<open>\<open>main\<close>\<close>
  | Out

datatype amix_duration = Longest | Shortest | First

datatype amix_option =
    Duration amix_duration
  | Dropout_transition real
  | Normalize bool

datatype filter =
    Volume jsnum                       \<comment> \<open>\<open>volume=V\<close>\<close>
  | Atrim_duration jsnum               \<comment> \<open>\<open>atrim=duration=D\<close>\<close>
  | Atrim jsnum jsnum                   \<comment> \<open>\<open>atrim=S:E\<close>\<close>
  | Asetpts_startpts                  \<comment> \<open>\<open>asetpts=PTS-STARTPTS\<close>\<close>
  | Adelay "jsnum list"               \<comment> \<open>\<open>adelay=D|D\<close>, one delay per channel\<close>
  | Afade_out jsnum jsnum               \<comment> \<open>\<open>afade=t=out:st=S:d=D\<close>\<close>
  | Amix nat "amix_option list"       \<comment> \<open>\<open>amix=inputs=N:...\<close>\<close>

record chain =
  ins :: "label list"
  filters :: "filter list"
  outl :: label

record ffmpeg_command =
  inputs :: "fpath list"
  complexFilter :: "chain list"
  mapped :: label
  audioCodec :: string
  audioBitrate :: string
  toFormat :: string
  outDuration :: "jsnum option"
  save :: fpath

section \<open>The plain variant\<close>

text \<open>Lines 109 to 111 of \<^verbatim>\<open>part_000\<close>.\<close>

definition delay_plain :: "bg_metadata \<Rightarrow> jsnum" where
  "delay_plain metadata =
     js_times (ToNumber (or_default (timestamp metadata) (Number (Fin 0)))) (Fin 1000)"

definition volume_plain :: "bg_metadata \<Rightarrow> jsnum" where
  "volume_plain metadata =
     Math_min (ToNumber (or_default (volume metadata) (Number (Fin 1)))) (Fin 1)"

definition duration_plain :: "jsnum \<Rightarrow> bg_metadata \<Rightarrow> jsnum" where
  "duration_plain mainDuration metadata =
     Math_min (ToNumber (or_default (duration metadata) (Number mainDuration)))
       (js_minus mainDuration (ToNumber (or_default (timestamp metadata) (Number (Fin 0)))))"

text \<open>The chain pushed for the clip at \<open>index\<close> (line 117).\<close>

definition clip_chain_plain :: "jsnum \<Rightarrow> bg_metadata option list \<Rightarrow> nat \<Rightarrow> chain" where
  "clip_chain_plain mainDuration backgroundAudioMetadata index =
     (let metadata = metadata_at backgroundAudioMetadata index;
          inputIndex = index + 1;
          delay = delay_plain metadata;
          vol = volume_plain metadata;
          dur = duration_plain mainDuration metadata
      in \<lparr>ins = [Stream inputIndex],
          filters = [Volume vol, Atrim_duration dur, Asetpts_startpts, Adelay [delay, delay]],
          outl = Delayed inputIndex\<rparr>)"

text \<open>
  The \<open>forEach\<close> over the uploaded clips (lines 106 to 119): the state is the pair of
  \<open>filterComplex\<close> and \<open>mixAudio\<close>, and each clip appends one chain and one label.
\<close>

fun forEach_plain ::
  "jsnum \<Rightarrow> bg_metadata option list \<Rightarrow> nat \<Rightarrow> upload list \<Rightarrow> chain list \<times> label list
   \<Rightarrow> chain list \<times> label list" where
  "forEach_plain mainDuration md index [] st = st"
| "forEach_plain mainDuration md index (file # files) (filterComplex, mixAudio) =
     forEach_plain mainDuration md (Suc index) files
       (filterComplex @ [clip_chain_plain mainDuration md index],
        mixAudio @ [Delayed (index + 1)])"

text \<open>
  \<open>processAudio\<close> up to the point where the command is started: the probe of the main
  track either fails, and the promise is rejected with its error, or gives the main
  duration, which is taken to be a number.
\<close>

definition processAudio_plain ::
  "fpath \<Rightarrow> upload list \<Rightarrow> bg_metadata option list \<Rightarrow> fpath \<Rightarrow> error + jsnum
   \<Rightarrow> error + ffmpeg_command" where
  "processAudio_plain mainAudioPath backgroundAudioFiles backgroundAudioMetadata outputPath probe =
     (case probe of
        Inl err \<Rightarrow> Inl err
      | Inr mainDuration \<Rightarrow>
          (let (filterComplex, mixAudio) =
                 forEach_plain mainDuration backgroundAudioMetadata 0 backgroundAudioFiles
                   ([], [Stream 0]);
               mixChain = \<lparr>ins = mixAudio,
                           filters = [Amix (length mixAudio) [Duration First],
                                      Atrim_duration mainDuration],
                           outl = Out\<rparr>
           in Inr \<lparr>inputs = mainAudioPath # map path backgroundAudioFiles,
                   complexFilter = filterComplex @ [mixChain],
                   mapped = Out,
                   audioCodec = ''aac'',
                   audioBitrate = ''128k'',
                   toFormat = ''adts'',
                   outDuration = Some mainDuration,
                   save = outputPath\<rparr>))"

section \<open>The fade variant\<close>

text \<open>Lines 109 to 113 of \<^verbatim>\<open>index.js\<close>.\<close>

definition startTime_fade :: "bg_metadata \<Rightarrow> jsnum" where
  "startTime_fade bgMetadata =
     ToNumber (or_default (Number (parseFloat (timestamp bgMetadata))) (Number (Fin 0)))"

definition volume_fade :: "bg_metadata \<Rightarrow> jsnum" where
  "volume_fade bgMetadata =
     Math_min (ToNumber (or_default (volume bgMetadata) (Number (Fin 1)))) (Fin 1)"

definition specifiedDuration_fade :: "jsnum \<Rightarrow> bg_metadata \<Rightarrow> jsnum" where
  "specifiedDuration_fade mainDuration bgMetadata =
     ToNumber (or_default (Number (parseFloat (duration bgMetadata)))
                 (Number (js_minus mainDuration (startTime_fade bgMetadata))))"

definition endTime_fade :: "jsnum \<Rightarrow> bg_metadata \<Rightarrow> jsnum" where
  "endTime_fade mainDuration bgMetadata =
     Math_min (js_plus (startTime_fade bgMetadata) (specifiedDuration_fade mainDuration bgMetadata))
       mainDuration"

text \<open>The two chains pushed for the clip at \<open>index\<close> (lines 119 and 120).\<close>

definition clip_chains_fade :: "jsnum \<Rightarrow> bg_metadata option list \<Rightarrow> nat \<Rightarrow> chain list" where
  "clip_chains_fade mainDuration backgroundAudioMetadata index =
     (let bgMetadata = metadata_at backgroundAudioMetadata index;
          inputIndex = index + 1;
          startTime = startTime_fade bgMetadata;
          vol = volume_fade bgMetadata;
          endTime = endTime_fade mainDuration bgMetadata
      in [\<lparr>ins = [Stream inputIndex],
           filters = [Atrim startTime endTime, Asetpts_startpts, Volume vol,
                      Afade_out (js_minus (js_minus endTime startTime) (Fin 0.5)) (Fin 0.5)],
           outl = Bg inputIndex\<rparr>,
          \<lparr>ins = [Bg inputIndex],
           filters = [Adelay [js_times startTime (Fin 1000), js_times startTime (Fin 1000)]],
           outl = DelayedBg inputIndex\<rparr>])"

fun forEach_fade ::
  "jsnum \<Rightarrow> bg_metadata option list \<Rightarrow> nat \<Rightarrow> upload list \<Rightarrow> chain list \<times> label list
   \<Rightarrow> chain list \<times> label list" where
  "forEach_fade mainDuration md index [] st = st"
| "forEach_fade mainDuration md index (file # files) (filterComplex, backgroundMixInputs) =
     forEach_fade mainDuration md (Suc index) files
       (filterComplex @ clip_chains_fade mainDuration md index,
        backgroundMixInputs @ [DelayedBg (index + 1)])"

text \<open>
  Lines 126 to 134: the clips are mixed into \<open>bgmix\<close>, which is laid over the main
  track; with no clip the main track alone goes to the output. The source writes the
  last two chains in one string, joined by a semicolon.
\<close>

definition processAudio_fade ::
  "fpath \<Rightarrow> upload list \<Rightarrow> bg_metadata option list \<Rightarrow> fpath \<Rightarrow> error + jsnum
   \<Rightarrow> error + ffmpeg_command" where
  "processAudio_fade mainAudioPath backgroundAudioFiles backgroundAudioMetadata outputPath probe =
     (case probe of
        Inl err \<Rightarrow> Inl err
      | Inr mainDuration \<Rightarrow>
          (let (filterComplex, backgroundMixInputs) =
                 forEach_fade mainDuration backgroundAudioMetadata 0 backgroundAudioFiles ([], []);
               tail =
                 (if length backgroundMixInputs > 0
                  then [\<lparr>ins = backgroundMixInputs,
                         filters = [Amix (length backgroundMixInputs) [Dropout_transition 0]],
                         outl = Bgmix\<rparr>,
                        \<lparr>ins = [Stream 0], filters = [Volume (Fin 1.0)], outl = MainL\<rparr>,
                        \<lparr>ins = [MainL, Bgmix], filters = [Amix 2 [Normalize False]], outl = Out\<rparr>]
                  else [\<lparr>ins = [Stream 0], filters = [Volume (Fin 1.0)], outl = Out\<rparr>])
           in Inr \<lparr>inputs = mainAudioPath # map path backgroundAudioFiles,
                   complexFilter = filterComplex @ tail,
                   mapped = Out,
                   audioCodec = ''aac'',
                   audioBitrate = ''128k'',
                   toFormat = ''adts'',
                   outDuration = None,
                   save = outputPath\<rparr>))"

section \<open>The random variant\<close>

text \<open>
  Line 118 of \<^verbatim>\<open>part_001\<close>. \<open>Math.random\<close> takes no seed; its successive results are
  an input of the model, \<open>random k\<close> being the result of the call made for the clip at
  index \<open>k\<close>. The product is rounded before \<open>Math.floor\<close> is taken.
\<close>

definition delay_random :: "jsnum \<Rightarrow> (nat \<Rightarrow> real) \<Rightarrow> nat \<Rightarrow> jsnum" where
  "delay_random mainDuration random index =
     js_times (Math_floor (js_times (Fin (random index)) (js_minus mainDuration (Fin 4))))
       (Fin 1000)"

definition clip_chain_random :: "jsnum \<Rightarrow> (nat \<Rightarrow> real) \<Rightarrow> nat \<Rightarrow> chain" where
  "clip_chain_random mainDuration random index =
     (let inputIndex = index + 1;
          delay = delay_random mainDuration random index
      in \<lparr>ins = [Stream inputIndex],
          filters = [Volume (Fin 0.4), Atrim_duration (Fin 4), Asetpts_startpts,
                     Adelay [delay, delay]],
          outl = Delayed inputIndex\<rparr>)"

fun forEach_random ::
  "jsnum \<Rightarrow> (nat \<Rightarrow> real) \<Rightarrow> nat \<Rightarrow> fpath list \<Rightarrow> chain list \<times> label list
   \<Rightarrow> chain list \<times> label list" where
  "forEach_random mainDuration random index [] st = st"
| "forEach_random mainDuration random index (file # files) (filterComplex, mixAudio) =
     forEach_random mainDuration random (Suc index) files
       (filterComplex @ [clip_chain_random mainDuration random index],
        mixAudio @ [Delayed (index + 1)])"

text \<open>
  \<open>processAudio\<close> of \<^verbatim>\<open>part_001\<close>: a missing main file rejects and returns; a missing
  clip rejects too, but the \<open>return\<close> only leaves the callback of \<open>forEach\<close>, so the
  command is built and started all the same. The result holds the first rejection, if
  any, and the command that was started, if any.
\<close>

record random_run =
  rejected :: "error option"
  started :: "ffmpeg_command option"

definition processAudio_random ::
  "fpath \<Rightarrow> fpath list \<Rightarrow> fpath \<Rightarrow> (fpath \<Rightarrow> bool) \<Rightarrow> error + jsnum \<Rightarrow> (nat \<Rightarrow> real)
   \<Rightarrow> random_run" where
  "processAudio_random mainAudioFile shortAudioFiles outputPath existsSync probe random =
     (if \<not> existsSync mainAudioFile
      then \<lparr>rejected = Some (Main_audio_not_found mainAudioFile), started = None\<rparr>
      else
        (let early = (case find (\<lambda>file. \<not> existsSync file) shortAudioFiles of
                        None \<Rightarrow> None
                      | Some file \<Rightarrow> Some (Short_audio_not_found file))
         in case probe of
              Inl err \<Rightarrow>
                \<lparr>rejected = (case early of None \<Rightarrow> Some err | Some e \<Rightarrow> Some e), started = None\<rparr>
            | Inr mainDuration \<Rightarrow>
                (let (filterComplex, mixAudio) =
                       forEach_random mainDuration random 0 shortAudioFiles ([], [Stream 0]);
                     mixChain = \<lparr>ins = mixAudio,
                                 filters = [Amix (length mixAudio) [Duration Longest]],
                                 outl = Out\<rparr>
                 in \<lparr>rejected = early,
                     started = Some \<lparr>inputs = mainAudioFile # shortAudioFiles,
                                     complexFilter = filterComplex @ [mixChain],
                                     mapped = Out,
                                     audioCodec = ''aac'',
                                     audioBitrate = ''128k'',
                                     toFormat = ''adts'',
                                     outDuration = None,
                                     save = outputPath\<rparr>\<rparr>)))"

section \<open>The upload route\<close>

text \<open>
  The value \<open>JSON.parse\<close> returns. The route stores it and hands it on without
  looking inside.
\<close>

datatype json =
    JNull
  | JBool bool
  | JNum real
  | JStr string
  | JArr "json list"
  | JObj "(string \<times> json) list"

text \<open>
  The text of the form field \<open>backgroundAudioMetadata\<close>, given by what \<open>JSON.parse\<close>
  does with it: \<open>Not_json s\<close> is a text \<open>s\<close> on which it throws, the empty text among
  them; \<open>Json_text v\<close> is a text that it reads as \<open>v\<close>, which is never empty.
\<close>

datatype form_text = Not_json string | Json_text json

definition truthy_text :: "form_text \<Rightarrow> bool" where
  "truthy_text t = (case t of Not_json s \<Rightarrow> s \<noteq> [] | Json_text v \<Rightarrow> True)"

definition JSON_parse :: "form_text \<Rightarrow> unit + json" where
  "JSON_parse t = (case t of Not_json s \<Rightarrow> Inl () | Json_text v \<Rightarrow> Inr v)"

text \<open>
  The request after multer: \<open>req.files\<close> with its two fields, each absent or a list
  of uploads, and the metadata field of the body, absent or a text.
\<close>

record req_files =
  mainAudio :: "upload list option"
  backgroundAudios :: "upload list option"

record process_request =
  files :: "req_files option"
  backgroundAudioMetadata :: "form_text option"

text \<open>
  What the handler does before the promise of \<open>processAudio\<close> settles: it answers
  with a status and an error text, or throws on an empty upload list, or calls
  \<open>processAudio\<close>. \<open>Call_processAudio mainAudioFile backgroundAudioFiles md\<close> is the
  call with \<open>mainAudioFile.path\<close>, the clips, the metadata \<open>md\<close> and the output path,
  which is the original name of the main file, its extension replaced by \<open>.aac\<close>, in
  the public directory.
\<close>

datatype process_step =
    Respond nat string
  | Throws_TypeError
  | Call_processAudio upload "upload list" json

text \<open>Lines 42 to 66 of \<^verbatim>\<open>part_000\<close> and of \<^verbatim>\<open>index.js\<close>.\<close>

definition post_process :: "process_request \<Rightarrow> process_step" where
  "post_process req =
     (case files req of
        None \<Rightarrow> Respond 400 ''Please upload one main audio file and at least one background audio file.''
      | Some fs \<Rightarrow>
          (case (mainAudio fs, backgroundAudios fs) of
             (Some (mainAudioFile # _), Some backgroundAudioFiles) \<Rightarrow>
               (let parsed =
                      (case backgroundAudioMetadata req of
                         None \<Rightarrow> Inr (JArr [])
                       | Some t \<Rightarrow> if truthy_text t then JSON_parse t else Inr (JArr []))
                in case parsed of
                     Inl _ \<Rightarrow> Respond 400 ''Invalid background audio metadata format''
                   | Inr md \<Rightarrow> Call_processAudio mainAudioFile backgroundAudioFiles md)
           | (Some [], Some backgroundAudioFiles) \<Rightarrow> Throws_TypeError
           | _ \<Rightarrow> Respond 400 ''Please upload one main audio file and at least one background audio file.''))"

section \<open>The download route\<close>

text \<open>
  A file is audio of some length, or something ffprobe cannot read. The file system
  maps the paths that exist to their files.
\<close>

datatype content = Audio real | Unreadable

type_synonym filesystem = "fpath \<Rightarrow> content option"

definition existsSync :: "filesystem \<Rightarrow> fpath \<Rightarrow> bool" where
  "existsSync fs p = (fs p \<noteq> None)"

text \<open>\<open>getAudioDuration\<close> (lines 315 to 325), read at its field \<open>duration\<close>.\<close>

definition getAudioDuration :: "filesystem \<Rightarrow> fpath \<Rightarrow> error + real" where
  "getAudioDuration fs filePath =
     (case fs filePath of
        Some (Audio d) \<Rightarrow> Inr d
      | _ \<Rightarrow> Inl (Ffprobe_error ''cannot read''))"

text \<open>The command \<open>trimAudio\<close> builds (lines 373 to 383).\<close>

record trim_command =
  source :: fpath
  setStartTime :: real
  setDuration :: real
  target :: fpath

definition trimAudio_command :: "fpath \<Rightarrow> fpath \<Rightarrow> real \<Rightarrow> trim_command" where
  "trimAudio_command inputPath outputPath dur =
     \<lparr>source = inputPath, setStartTime = 0, setDuration = dur, target = outputPath\<rparr>"

text \<open>
  What running that command does, as far as the route depends on it: ffmpeg reads the
  input and writes only the output path. A run that succeeds leaves there the part of
  the input from the start time on, at most the duration long. A run that fails may
  leave a partial file there. Whether the run fails is given from outside.
\<close>

datatype run_outcome = Succeeds | Fails "content option"

definition run_trim :: "run_outcome \<Rightarrow> filesystem \<Rightarrow> trim_command \<Rightarrow> error + filesystem" where
  "run_trim outcome fs c =
     (case (fs (source c), outcome) of
        (Some (Audio d), Succeeds) \<Rightarrow>
          Inr (fs(target c \<mapsto> Audio (max 0 (min (d - setStartTime c) (setDuration c)))))
      | _ \<Rightarrow> Inl (Ffmpeg_error ''ffmpeg exited''))"

definition leftover :: "run_outcome \<Rightarrow> filesystem \<Rightarrow> trim_command \<Rightarrow> filesystem" where
  "leftover outcome fs c =
     (case outcome of Fails (Some partial) \<Rightarrow> fs(target c \<mapsto> partial) | _ \<Rightarrow> fs)"

text \<open>\<open>fs.unlink\<close>: the path is gone afterwards; on a missing path only an error is logged.\<close>

definition unlink :: "filesystem \<Rightarrow> fpath \<Rightarrow> filesystem" where
  "unlink fs p = fs(p := None)"

text \<open>
  \<open>res.download\<close>: the file at the path is sent, unless the transfer fails or there is
  no such file; then the callback, or Express without one, gets an error.
\<close>

definition res_download :: "bool \<Rightarrow> filesystem \<Rightarrow> fpath \<Rightarrow> content option" where
  "res_download fails fs p = (if fails then None else fs p)"

text \<open>
  What the client gets: a file, a status with a text, a transfer that broke off after
  the headers were sent, the default error page of Express, or nothing at all when the
  handler threw.
\<close>

datatype response =
    Sent_file fpath content
  | Status nat string
  | Broken_transfer
  | Express_error
  | No_response

text \<open>
  What is given from outside to one request: how the run of ffmpeg ends, whether the
  transfer of the file fails, and whether the headers were already sent when it failed.
\<close>

record download_env =
  trim_outcome :: run_outcome
  download_err :: bool
  headersSent :: bool

record download_result =
  response :: response
  trims :: "trim_command list"
  unlinked :: "fpath list"
  fs_after :: filesystem

text \<open>
  Lines 328 to 370 of \<^verbatim>\<open>part_000\<close>. Without the query parameter \<open>mainAudio\<close>,
  \<open>path.join\<close> throws inside the asynchronous handler and no response is sent.
\<close>

definition download_route ::
  "download_env \<Rightarrow> filesystem \<Rightarrow> string \<Rightarrow> string option \<Rightarrow> download_result" where
  "download_route env fs filename mainAudioQuery =
     (case mainAudioQuery of
        None \<Rightarrow> \<lparr>response = No_response, trims = [], unlinked = [], fs_after = fs\<rparr>
      | Some mainAudioName \<Rightarrow>
          (let originalFilePath = path_join PublicDir filename;
               mainAudioPath = path_join UploadsDir mainAudioName
           in if \<not> existsSync fs originalFilePath \<or> \<not> existsSync fs mainAudioPath
              then \<lparr>response = Status 404 ''File not found'', trims = [], unlinked = [],
                    fs_after = fs\<rparr>
              else
                (case (getAudioDuration fs originalFilePath, getAudioDuration fs mainAudioPath) of
                   (Inr originalDuration, Inr mainDuration) \<Rightarrow>
                     if originalDuration \<le> mainDuration
                     then \<lparr>response =
                             (case res_download (download_err env) fs originalFilePath of
                                None \<Rightarrow> Express_error
                              | Some sent \<Rightarrow> Sent_file originalFilePath sent),
                           trims = [], unlinked = [], fs_after = fs\<rparr>
                     else
                       (let trimmedFilePath = path_join OutputDir filename;
                            c = trimAudio_command originalFilePath trimmedFilePath mainDuration
                        in case run_trim (trim_outcome env) fs c of
                             Inl err \<Rightarrow>
                               \<lparr>response = Status 500 ''Error processing audio file'',
                                trims = [c], unlinked = [],
                                fs_after = leftover (trim_outcome env) fs c\<rparr>
                           | Inr fs' \<Rightarrow>
                               \<lparr>response =
                                  (case res_download (download_err env) fs' trimmedFilePath of
                                     None \<Rightarrow>
                                       if \<not> headersSent env
                                       then Status 500 ''Error during file download''
                                       else Broken_transfer
                                   | Some sent \<Rightarrow> Sent_file trimmedFilePath sent),
                                trims = [c], unlinked = [trimmedFilePath],
                                fs_after = unlink fs' trimmedFilePath\<rparr>)
                 | _ \<Rightarrow>
                     \<lparr>response = Status 500 ''Error processing audio file'', trims = [],
                      unlinked = [], fs_after = fs\<rparr>)))"

section \<open>The kinds of operation\<close>

text \<open>
  The specification speaks of four kinds of operation on a clip: trim, gain, fade-out
  and delay. Each ffmpeg filter of a clip's chains is one of them, except the reset
  of the timestamps that follows a trim. \<open>stages\<close> reads the kinds off a list of
  chains, in the order in which ffmpeg applies the filters.
\<close>

datatype stage = Trim | Gain | FadeOut | Delay

fun stage_of :: "filter \<Rightarrow> stage option" where
  "stage_of (Volume v) = Some Gain"
| "stage_of (Atrim_duration d) = Some Trim"
| "stage_of (Atrim s e) = Some Trim"
| "stage_of Asetpts_startpts = None"
| "stage_of (Adelay ds) = Some Delay"
| "stage_of (Afade_out s d) = Some FadeOut"
| "stage_of (Amix n opts) = None"

definition stages :: "chain list \<Rightarrow> stage list" where
  "stages cs = List.map_filter stage_of (concat (map filters cs))"

section \<open>Properties of the loops\<close>

lemma forEach_plain_eq:
  "forEach_plain d md i clips (fc, mix) =
     (fc @ map (clip_chain_plain d md) [i ..< i + length clips],
      mix @ map Delayed [Suc i ..< Suc (i + length clips)])"
proof (induction clips arbitrary: i fc mix)
  case Nil
  show ?case by simp
next
  case (Cons f clips)
  have "[i ..< i + length (f # clips)] = i # [Suc i ..< Suc i + length clips]"
    using upt_rec [of i "i + length (f # clips)"] by simp
  moreover have "[Suc i ..< Suc (i + length (f # clips))] =
      Suc i # [Suc (Suc i) ..< Suc (Suc i + length clips)]"
    using upt_rec [of "Suc i" "Suc (i + length (f # clips))"] by simp
  ultimately show ?case using Cons.IH [of "Suc i"] by simp
qed

lemma forEach_fade_eq:
  "forEach_fade d md i clips (fc, mix) =
     (fc @ concat (map (clip_chains_fade d md) [i ..< i + length clips]),
      mix @ map DelayedBg [Suc i ..< Suc (i + length clips)])"
proof (induction clips arbitrary: i fc mix)
  case Nil
  show ?case by simp
next
  case (Cons f clips)
  have "[i ..< i + length (f # clips)] = i # [Suc i ..< Suc i + length clips]"
    using upt_rec [of i "i + length (f # clips)"] by simp
  moreover have "[Suc i ..< Suc (i + length (f # clips))] =
      Suc i # [Suc (Suc i) ..< Suc (Suc i + length clips)]"
    using upt_rec [of "Suc i" "Suc (i + length (f # clips))"] by simp
  ultimately show ?case using Cons.IH [of "Suc i"] by simp
qed

lemma forEach_random_eq:
  "forEach_random d rnd i clips (fc, mix) =
     (fc @ map (clip_chain_random d rnd) [i ..< i + length clips],
      mix @ map Delayed [Suc i ..< Suc (i + length clips)])"
proof (induction clips arbitrary: i fc mix)
  case Nil
  show ?case by simp
next
  case (Cons f clips)
  have "[i ..< i + length (f # clips)] = i # [Suc i ..< Suc i + length clips]"
    using upt_rec [of i "i + length (f # clips)"] by simp
  moreover have "[Suc i ..< Suc (i + length (f # clips))] =
      Suc i # [Suc (Suc i) ..< Suc (Suc i + length clips)]"
    using upt_rec [of "Suc i" "Suc (i + length (f # clips))"] by simp
  ultimately show ?case using Cons.IH [of "Suc i"] by simp
qed

section \<open>Properties of the rounding\<close>

lemma round_half_even_of_int: "round_half_even (of_int n) = n"
  by (simp add: round_half_even_def)

lemma round_half_even_near: "\<bar>of_int (round_half_even y) - y\<bar> \<le> 1 / 2"
  unfolding round_half_even_def Let_def by (auto simp: abs_if) linarith+

lemma round_half_even_pos:
  assumes "0 < round_half_even y"
  shows "0 < y"
proof (rule ccontr)
  assume "\<not> 0 < y"
  then have y: "y \<le> 0" by simp
  then have f: "\<lfloor>y\<rfloor> \<le> 0" by (simp add: floor_le_zero)
  show False
  proof (cases "\<lfloor>y\<rfloor> = 0")
    case True
    then have "y - of_int \<lfloor>y\<rfloor> < 1 / 2" using y by simp
    then have "round_half_even y = 0"
      using True by (simp add: round_half_even_def Let_def)
    with assms show False by simp
  next
    case False
    with f have "\<lfloor>y\<rfloor> + 1 \<le> 0" by linarith
    then have "round_half_even y \<le> 0"
      by (simp add: round_half_even_def Let_def)
    with assms show False by simp
  qed
qed

text \<open>A real with at most 53 significant bits, in the range of the doubles, is a double.\<close>

lemma binary64_exact:
  fixes x :: real
  assumes x: "x = of_int m * 2 powi k" and m: "\<bar>m\<bar> < 2 ^ 53" and k: "- 1074 \<le> k" "k \<le> 971"
  shows "binary64 x = Fin x"
proof (cases "x = 0")
  case True
  then show ?thesis by (simp add: binary64_def)
next
  case False
  define e0 where "e0 = \<lfloor>log 2 \<bar>x\<bar>\<rfloor>"
  define e where "e = max e0 (- 1022)"
  have absx: "\<bar>x\<bar> = of_int \<bar>m\<bar> * 2 powi k"
    by (simp add: x abs_mult)
  have pos: "0 < \<bar>x\<bar>" using False by simp
  have "of_int e0 \<le> log 2 \<bar>x\<bar>" unfolding e0_def by simp
  then have "2 powr (of_int e0) \<le> \<bar>x\<bar>"
    using pos by (simp add: le_log_iff)
  then have low: "2 powi e0 \<le> \<bar>x\<bar>"
    by (simp add: powr_real_of_int')
  have mm: "(of_int \<bar>m\<bar> :: real) < 2 ^ 53"
    using m by (metis of_int_less_numeral_power_cancel_iff)
  then have "\<bar>x\<bar> < 2 ^ 53 * 2 powi k"
    unfolding absx by (simp add: mult_strict_right_mono)
  also have "\<dots> = 2 powi (53 + k)"
    by (simp add: power_int_add)
  finally have "(2::real) powi e0 < 2 powi (53 + k)"
    using low by linarith
  then have "e0 < 53 + k"
    using power_int_increasing [of "53 + k" e0 "2::real"] by (cases "e0 < 53 + k") auto
  then have ek: "e - 52 \<le> k" using k by (simp add: e_def)
  define j where "j = nat (k - (e - 52))"
  have kj: "k = (e - 52) + int j" using ek by (simp add: j_def)
  have pk: "(2::real) powi k = 2 ^ j * 2 powi (e - 52)"
    by (subst kj) (simp add: power_int_add)
  have "x / 2 powi (e - 52) = of_int m * 2 ^ j"
    by (simp add: x pk)
  also have "\<dots> = of_int (m * 2 ^ j)" by simp
  finally have quot: "x / 2 powi (e - 52) = of_int (m * 2 ^ j)" .
  have "of_int (m * 2 ^ j) * 2 powi (e - 52) = x"
    by (simp add: x pk)
  then have r: "of_int (round_half_even (x / 2 powi (e - 52))) * 2 powi (e - 52) = x"
    by (simp only: quot round_half_even_of_int)
  have range: "\<bar>x\<bar> < 2 ^ 1024"
  proof -
    define top :: real where "top = 2 powi 971"
    have top: "0 < top" "2 ^ 53 * top = 2 ^ 1024"
      by (simp_all add: top_def power_int_def flip: power_add)
    have "2 powi k \<le> top"
      unfolding top_def using k(2) by (rule power_int_increasing) simp
    then have "of_int \<bar>m\<bar> * 2 powi k \<le> of_int \<bar>m\<bar> * top"
      by (rule mult_left_mono) simp
    also have "\<dots> < 2 ^ 53 * top"
      using mm top(1) by (rule mult_strict_right_mono)
    finally show ?thesis unfolding absx top(2) .
  qed
  show ?thesis
    using False range r
    by (auto simp: binary64_def Let_def e_def [symmetric] e0_def [symmetric])
qed

lemma binary64_numeral:
  "(numeral w :: int) < 2 ^ 53 \<Longrightarrow> binary64 (numeral w) = Fin (numeral w)"
  using binary64_exact [of "numeral w" "numeral w" 0] by simp

lemma binary64_neg_numeral:
  "(numeral w :: int) < 2 ^ 53 \<Longrightarrow> binary64 (- numeral w) = Fin (- numeral w)"
  using binary64_exact [of "- numeral w" "- numeral w" 0] by simp

lemma binary64_zero: "binary64 0 = Fin 0"
  by (simp add: binary64_def)

lemma binary64_one: "binary64 1 = Fin 1"
  using binary64_exact [of 1 1 0] by simp

text \<open>
  The error of one rounding: at most one part in \<open>2 ^ 53\<close> of the exact result, or
  half the spacing of the smallest doubles.
\<close>

lemma binary64_error:
  assumes "binary64 x = Fin r"
  shows "\<bar>r - x\<bar> \<le> \<bar>x\<bar> / 2 ^ 53 + 2 powi (- 1075)"
proof (cases "x = 0")
  case True
  with assms show ?thesis by (simp add: binary64_def)
next
  case False
  define e0 where "e0 = \<lfloor>log 2 \<bar>x\<bar>\<rfloor>"
  define e where "e = max e0 (- 1022)"
  define q :: real where "q = 2 powi (e - 52)"
  define n where "n = round_half_even (x / q)"
  have q: "0 < q" by (simp add: q_def)
  have r: "r = of_int n * q"
    using assms False
    by (auto simp: binary64_def Let_def e_def [symmetric] e0_def [symmetric]
          q_def [symmetric] n_def [symmetric] split: if_splits)
  have "\<bar>of_int n - x / q\<bar> \<le> 1 / 2"
    unfolding n_def by (rule round_half_even_near)
  then have "\<bar>of_int n - x / q\<bar> * q \<le> 1 / 2 * q"
    using q by (simp add: mult_right_mono)
  moreover have "\<bar>of_int n - x / q\<bar> * q = \<bar>r - x\<bar>"
  proof -
    have "(of_int n - x / q) * q = r - x"
      using q by (simp add: r left_diff_distrib)
    then have "\<bar>r - x\<bar> = \<bar>(of_int n - x / q) * q\<bar>" by simp
    also have "\<dots> = \<bar>of_int n - x / q\<bar> * \<bar>q\<bar>" by (rule abs_mult)
    also have "\<bar>q\<bar> = q" using q by simp
    finally show ?thesis by simp
  qed
  ultimately have half: "\<bar>r - x\<bar> \<le> q / 2" by simp
  have pos: "0 < \<bar>x\<bar>" using False by simp
  have "of_int e0 \<le> log 2 \<bar>x\<bar>" unfolding e0_def by simp
  then have "2 powr (of_int e0) \<le> \<bar>x\<bar>"
    using pos by (simp add: le_log_iff)
  then have low: "2 powi e0 \<le> \<bar>x\<bar>"
    by (simp add: powr_real_of_int')
  have "q / 2 \<le> \<bar>x\<bar> / 2 ^ 53 + 2 powi (- 1075)"
  proof (cases "- 1022 \<le> e0")
    case True
    then have "q = 2 powi e0 / 2 ^ 52"
      by (simp add: q_def e_def power_int_diff)
    then have "q / 2 = 2 powi e0 / 2 ^ 53" by simp
    also have "\<dots> \<le> \<bar>x\<bar> / 2 ^ 53"
      using low by (simp add: divide_right_mono)
    finally show ?thesis by simp
  next
    case False
    then have "q = 2 powi (- 1074)"
      by (simp add: q_def e_def)
    then have "q / 2 = 2 powi (- 1075)"
      by (simp add: power_int_minus)
    then show ?thesis by simp
  qed
  with half show ?thesis by linarith
qed

text \<open>Rounding never turns a number that is not positive into a positive one.\<close>

lemma binary64_pos:
  assumes "binary64 x = Fin r" and "0 < r"
  shows "0 < x"
proof (cases "x = 0")
  case True
  with assms show ?thesis by (simp add: binary64_def)
next
  case False
  define q :: real where "q = 2 powi (max \<lfloor>log 2 \<bar>x\<bar>\<rfloor> (- 1022) - 52)"
  define n where "n = round_half_even (x / q)"
  have q: "0 < q" by (simp add: q_def)
  have r: "r = of_int n * q"
    using assms(1) False
    by (auto simp: binary64_def Let_def q_def [symmetric] n_def [symmetric] split: if_splits)
  with assms(2) q have "0 < n"
    by (simp add: zero_less_mult_iff)
  then have "0 < x / q"
    unfolding n_def by (rule round_half_even_pos)
  with q show ?thesis by (simp add: zero_less_divide_iff)
qed

section \<open>The plans as closed forms\<close>

lemma processAudio_plain_Inr:
  "processAudio_plain p clips md out (Inr d) =
     Inr \<lparr>inputs = p # map path clips,
          complexFilter = map (clip_chain_plain d md) [0 ..< length clips] @
            [\<lparr>ins = Stream 0 # map Delayed [1 ..< Suc (length clips)],
              filters = [Amix (Suc (length clips)) [Duration First], Atrim_duration d],
              outl = Out\<rparr>],
          mapped = Out, audioCodec = ''aac'', audioBitrate = ''128k'', toFormat = ''adts'',
          outDuration = Some d, save = out\<rparr>"
  by (simp add: processAudio_plain_def forEach_plain_eq del: upt_Suc)

lemma processAudio_random_started:
  "ex mf \<Longrightarrow> started (processAudio_random mf shorts out ex (Inr d) rnd) =
     Some \<lparr>inputs = mf # shorts,
          complexFilter = map (clip_chain_random d rnd) [0 ..< length shorts] @
            [\<lparr>ins = Stream 0 # map Delayed [1 ..< Suc (length shorts)],
              filters = [Amix (Suc (length shorts)) [Duration Longest]],
              outl = Out\<rparr>],
          mapped = Out, audioCodec = ''aac'', audioBitrate = ''128k'', toFormat = ''adts'',
          outDuration = None, save = out\<rparr>"
  by (simp add: processAudio_random_def forEach_random_eq Let_def del: upt_Suc)

lemma processAudio_fade_Inr:
  "processAudio_fade p clips md out (Inr d) =
     Inr \<lparr>inputs = p # map path clips,
          complexFilter = concat (map (clip_chains_fade d md) [0 ..< length clips]) @
            (if clips = [] then [\<lparr>ins = [Stream 0], filters = [Volume (Fin 1)], outl = Out\<rparr>]
             else [\<lparr>ins = map DelayedBg [1 ..< Suc (length clips)],
                     filters = [Amix (length clips) [Dropout_transition 0]], outl = Bgmix\<rparr>,
                   \<lparr>ins = [Stream 0], filters = [Volume (Fin 1)], outl = MainL\<rparr>,
                   \<lparr>ins = [MainL, Bgmix], filters = [Amix 2 [Normalize False]], outl = Out\<rparr>]),
          mapped = Out, audioCodec = ''aac'', audioBitrate = ''128k'', toFormat = ''adts'',
          outDuration = None, save = out\<rparr>"
  by (simp add: processAudio_fade_def forEach_fade_eq del: upt_Suc)


text \<open>
  Where the chains of the clip at index \<open>i\<close> stand in the list of chains: at position
  \<open>i\<close> in the plain variant, at positions \<open>2 * i\<close> and \<open>2 * i + 1\<close> in the fade variant.
\<close>

lemma length_clip_chains_fade: "length (clip_chains_fade D md k) = 2"
  by (simp add: clip_chains_fade_def Let_def)

lemma length_concat_fade:
  "length (concat (map (clip_chains_fade D md) [0 ..< n])) = 2 * n"
  by (induction n) (simp_all add: length_clip_chains_fade)

lemma clip_chains_in_concat:
  assumes "i < n"
  shows "take 2 (drop (2 * i) (concat (map (clip_chains_fade D md) [0 ..< n]) @ rest)) =
     clip_chains_fade D md i"
proof -
  have "[0 ..< n] = [0 ..< i] @ [i ..< n]"
    using assms upt_add_eq_append [of 0 i "n - i"] by simp
  also have "[i ..< n] = i # [Suc i ..< n]"
    using assms by (simp add: upt_conv_Cons)
  finally have split: "concat (map (clip_chains_fade D md) [0 ..< n]) @ rest =
      concat (map (clip_chains_fade D md) [0 ..< i]) @
        (clip_chains_fade D md i @ (concat (map (clip_chains_fade D md) [Suc i ..< n]) @ rest))"
    by simp
  show ?thesis
    unfolding split by (simp add: length_concat_fade length_clip_chains_fade)
qed

lemma fade_plan_clip:
  assumes "i < length clips"
  shows "\<exists>cmd. processAudio_fade p clips md out (Inr D) = Inr cmd
     \<and> take 2 (drop (2 * i) (complexFilter cmd)) = clip_chains_fade D md i"
proof -
  have "take 2 (drop (2 * i) (concat (map (clip_chains_fade D md) [0 ..< length clips]) @ rest))
          = clip_chains_fade D md i" for rest
    using assms by (rule clip_chains_in_concat)
  then show ?thesis
    unfolding processAudio_fade_Inr by simp
qed

lemma plain_plan_clip:
  "i < length clips \<Longrightarrow>
   \<exists>cmd. processAudio_plain p clips md out (Inr D) = Inr cmd
     \<and> complexFilter cmd ! i = clip_chain_plain D md i"
  by (simp add: processAudio_plain_Inr nth_append del: upt_Suc)

section \<open>Retrieval\<close>

text \<open>
  Claim C1, as the code has it. When the rendered file and the main track can both be
  probed, the download route sends the rendered file as it is exactly when its
  duration is at most that of the main track, compared without any tolerance;
  otherwise it runs one trim of the rendered file, from offset 0 and as long as the
  main track, and sends the result.
\<close>

theorem retrieval_trims_exactly_when_longer:
  assumes "fs (PublicDir, filename) = Some (Audio a)"
    and "fs (UploadsDir, m) = Some (Audio r)"
  shows "trims (download_route env fs filename (Some m)) =
           (if a \<le> r then []
            else [\<lparr>source = (PublicDir, filename), setStartTime = 0, setDuration = r,
                   target = (OutputDir, filename)\<rparr>])
       \<and> (a \<le> r \<longrightarrow> fs_after (download_route env fs filename (Some m)) = fs)
       \<and> (a \<le> r \<and> \<not> download_err env \<longrightarrow>
            response (download_route env fs filename (Some m)) =
              Sent_file (PublicDir, filename) (Audio a))
       \<and> (r < a \<and> trim_outcome env = Succeeds \<and> \<not> download_err env \<longrightarrow>
            response (download_route env fs filename (Some m)) =
              Sent_file (OutputDir, filename) (Audio (max 0 r)))"
  using assms
  by (auto simp: download_route_def path_join_def existsSync_def getAudioDuration_def
        trimAudio_command_def run_trim_def res_download_def Let_def split: sum.splits)

text \<open>The two examples of the specification: 10 against 12 seconds, and 12 against 10.\<close>

theorem retrieval_trims_exactly_when_longer_witness:
  "response (download_route \<lparr>trim_outcome = Succeeds, download_err = False, headersSent = False\<rparr>
      (Map.empty((PublicDir, ''t.aac'') \<mapsto> Audio 10, (UploadsDir, ''m.aac'') \<mapsto> Audio 12))
      ''t.aac'' (Some ''m.aac'')) = Sent_file (PublicDir, ''t.aac'') (Audio 10)
   \<and> trims (download_route \<lparr>trim_outcome = Succeeds, download_err = False, headersSent = False\<rparr>
      (Map.empty((PublicDir, ''t.aac'') \<mapsto> Audio 12, (UploadsDir, ''m.aac'') \<mapsto> Audio 10))
      ''t.aac'' (Some ''m.aac''))
     = [\<lparr>source = (PublicDir, ''t.aac''), setStartTime = 0, setDuration = 10,
         target = (OutputDir, ''t.aac'')\<rparr>]"
  using retrieval_trims_exactly_when_longer
          [of "Map.empty((PublicDir, ''t.aac'') \<mapsto> Audio 10, (UploadsDir, ''m.aac'') \<mapsto> Audio 12)"
              "''t.aac''" 10 "''m.aac''" 12 "\<lparr>trim_outcome = Succeeds, download_err = False, headersSent = False\<rparr>"]
        retrieval_trims_exactly_when_longer
          [of "Map.empty((PublicDir, ''t.aac'') \<mapsto> Audio 12, (UploadsDir, ''m.aac'') \<mapsto> Audio 10)"
              "''t.aac''" 12 "''m.aac''" 10 "\<lparr>trim_outcome = Succeeds, download_err = False, headersSent = False\<rparr>"]
  by simp

text \<open>
  A rendered file of 10.005 seconds against a main track of 10 seconds is trimmed to
  10 seconds, not sent as it is.
\<close>

theorem retrieval_has_no_tolerance:
  "trims (download_route \<lparr>trim_outcome = Succeeds, download_err = False, headersSent = False\<rparr>
      (Map.empty((PublicDir, ''t.aac'') \<mapsto> Audio 10.005, (UploadsDir, ''m.aac'') \<mapsto> Audio 10))
      ''t.aac'' (Some ''m.aac''))
     = [\<lparr>source = (PublicDir, ''t.aac''), setStartTime = 0, setDuration = 10,
         target = (OutputDir, ''t.aac'')\<rparr>]
   \<and> response (download_route \<lparr>trim_outcome = Succeeds, download_err = False, headersSent = False\<rparr>
      (Map.empty((PublicDir, ''t.aac'') \<mapsto> Audio 10.005, (UploadsDir, ''m.aac'') \<mapsto> Audio 10))
      ''t.aac'' (Some ''m.aac'')) = Sent_file (OutputDir, ''t.aac'') (Audio 10)"
  by (simp add: download_route_def path_join_def existsSync_def getAudioDuration_def
        trimAudio_command_def run_trim_def res_download_def Let_def)

text \<open>
  Claim C8, as the code has it. The route answers a missing rendered file and a
  missing main track alike, with status 404 and the text \<open>File not found\<close>; and when
  both exist and one of them cannot be read, it answers with status 500 and the text
  \<open>Error processing audio file\<close>, whichever of the two it was. Nothing is trimmed or
  deleted in either case.
\<close>

theorem missing_track_same_response:
  "(fs (PublicDir, filename) = None \<or> fs (UploadsDir, m) = None \<longrightarrow>
      download_route env fs filename (Some m) =
        \<lparr>response = Status 404 ''File not found'', trims = [], unlinked = [], fs_after = fs\<rparr>)
   \<and> (fs (PublicDir, filename) \<noteq> None \<and> fs (UploadsDir, m) \<noteq> None
        \<and> (fs (PublicDir, filename) = Some Unreadable \<or> fs (UploadsDir, m) = Some Unreadable) \<longrightarrow>
      download_route env fs filename (Some m) =
        \<lparr>response = Status 500 ''Error processing audio file'', trims = [], unlinked = [],
         fs_after = fs\<rparr>)"
  by (auto simp: download_route_def path_join_def existsSync_def getAudioDuration_def Let_def
        split: sum.splits option.splits content.splits)

theorem missing_track_same_response_witness:
  "response (download_route \<lparr>trim_outcome = Succeeds, download_err = False, headersSent = False\<rparr>
      (Map.empty((UploadsDir, ''m.aac'') \<mapsto> Audio 10)) ''t.aac'' (Some ''m.aac''))
     = Status 404 ''File not found''
   \<and> response (download_route \<lparr>trim_outcome = Succeeds, download_err = False, headersSent = False\<rparr>
      (Map.empty((PublicDir, ''t.aac'') \<mapsto> Audio 12, (UploadsDir, ''m.aac'') \<mapsto> Unreadable))
      ''t.aac'' (Some ''m.aac''))
     = Status 500 ''Error processing audio file''"
  using missing_track_same_response
          [of "Map.empty((UploadsDir, ''m.aac'') \<mapsto> Audio 10)" "''t.aac''" "''m.aac''" "\<lparr>trim_outcome = Succeeds, download_err = False, headersSent = False\<rparr>"]
        missing_track_same_response
          [of "Map.empty((PublicDir, ''t.aac'') \<mapsto> Audio 12, (UploadsDir, ''m.aac'') \<mapsto> Unreadable)"
              "''t.aac''" "''m.aac''" "\<lparr>trim_outcome = Succeeds, download_err = False, headersSent = False\<rparr>"]
  by simp

text \<open>
  With only the main track on disk, and with only the rendered file on disk, the
  client reads the same response.
\<close>

theorem missing_tracks_indistinct:
  "response (download_route \<lparr>trim_outcome = Succeeds, download_err = False, headersSent = False\<rparr>
      (Map.empty((UploadsDir, ''m.aac'') \<mapsto> Audio 10)) ''t.aac'' (Some ''m.aac''))
   = response (download_route \<lparr>trim_outcome = Succeeds, download_err = False, headersSent = False\<rparr>
      (Map.empty((PublicDir, ''t.aac'') \<mapsto> Audio 12)) ''t.aac'' (Some ''m.aac''))"
  by (simp add: download_route_def path_join_def existsSync_def)

text \<open>
  What the route keeps of claim C9. When the rendered file is longer than the main
  track, the trim writes to a path of its own in the output directory; every other
  path, the rendered file among them, holds afterwards what it held before, however
  the run and the transfer end. When the run succeeds the trimmed file is what is
  sent, and it is unlinked once the transfer has ended, whether the transfer failed or
  not.
\<close>

lemma trimmed_copy_separate_and_removed:
  assumes "fs (PublicDir, filename) = Some (Audio a)"
    and "fs (UploadsDir, m) = Some (Audio r)"
    and "r < a"
  shows "trims (download_route env fs filename (Some m)) =
           [\<lparr>source = (PublicDir, filename), setStartTime = 0, setDuration = r,
             target = (OutputDir, filename)\<rparr>]
       \<and> (OutputDir, filename) \<noteq> (PublicDir, filename)
       \<and> (\<forall>p. p \<noteq> (OutputDir, filename) \<longrightarrow>
             fs_after (download_route env fs filename (Some m)) p = fs p)
       \<and> fs_after (download_route env fs filename (Some m)) (PublicDir, filename) = Some (Audio a)
       \<and> (trim_outcome env = Succeeds \<longrightarrow>
             unlinked (download_route env fs filename (Some m)) = [(OutputDir, filename)]
           \<and> fs_after (download_route env fs filename (Some m)) (OutputDir, filename) = None
           \<and> (\<not> download_err env \<longrightarrow>
                response (download_route env fs filename (Some m)) =
                  Sent_file (OutputDir, filename) (Audio (max 0 r))))"
  using assms
  by (auto simp: download_route_def path_join_def existsSync_def getAudioDuration_def
        trimAudio_command_def run_trim_def res_download_def unlink_def leftover_def Let_def
        split: sum.splits run_outcome.splits option.splits)

text \<open>
  Claim C9, where the code departs from it. A rendered file of 12 seconds against a
  main track of 10 seconds is to be trimmed, and the run of ffmpeg fails after it has
  written 3 seconds to the output directory. The route answers from its \<open>catch\<close> with
  status 500 and unlinks nothing: the partial file stays in the output directory.
  The only \<open>fs.unlink\<close> of the route is in the callback of \<open>res.download\<close>, which this
  path never reaches.
\<close>

theorem failed_trim_leaves_partial_file:
  "download_route \<lparr>trim_outcome = Fails (Some (Audio 3)), download_err = False, headersSent = False\<rparr>
     (Map.empty((PublicDir, ''t.aac'') \<mapsto> Audio 12, (UploadsDir, ''m.aac'') \<mapsto> Audio 10))
     ''t.aac'' (Some ''m.aac'')
   = \<lparr>response = Status 500 ''Error processing audio file'',
      trims = [\<lparr>source = (PublicDir, ''t.aac''), setStartTime = 0, setDuration = 10,
                target = (OutputDir, ''t.aac'')\<rparr>],
      unlinked = [],
      fs_after = Map.empty((PublicDir, ''t.aac'') \<mapsto> Audio 12, (UploadsDir, ''m.aac'') \<mapsto> Audio 10,
                           (OutputDir, ''t.aac'') \<mapsto> Audio 3)\<rparr>"
  by (simp add: download_route_def path_join_def existsSync_def getAudioDuration_def
        trimAudio_command_def run_trim_def leftover_def Let_def)

theorem failed_trim_leaves_partial_file_witness:
  "unlinked (download_route
       \<lparr>trim_outcome = Fails (Some (Audio 3)), download_err = False, headersSent = False\<rparr>
       (Map.empty((PublicDir, ''t.aac'') \<mapsto> Audio 12, (UploadsDir, ''m.aac'') \<mapsto> Audio 10))
       ''t.aac'' (Some ''m.aac'')) = []
   \<and> fs_after (download_route
       \<lparr>trim_outcome = Fails (Some (Audio 3)), download_err = False, headersSent = False\<rparr>
       (Map.empty((PublicDir, ''t.aac'') \<mapsto> Audio 12, (UploadsDir, ''m.aac'') \<mapsto> Audio 10))
       ''t.aac'' (Some ''m.aac'')) (OutputDir, ''t.aac'') = Some (Audio 3)"
  using failed_trim_leaves_partial_file by simp

section \<open>Placements\<close>

text \<open>
  Claim C2, as the code has it, for every entry \<open>m\<close> and so for every
  \<open>metadata_at md i\<close>. Plain variant: when the offset, the difference of the main
  duration and the offset as the code computes it, and the span are finite numbers,
  the span is at most that computed difference, so the offset plus the span is at
  most the main duration plus the error of that one rounding, which is at most one
  part in \<open>2 ^ 53\<close> of the exact difference plus \<open>2 powi (- 1075)\<close>. Fade variant: an end
  time that is a finite number is at most the main duration, with no tolerance.
  Neither variant clamps the offset from below or keeps a least span: a negative
  number as offset is kept, and with an offset at or beyond the main duration the
  plain span is zero or negative. The plain span is positive when the offset is a
  number that is not negative, the computed difference is positive, and the raw
  duration is falsy or a positive number. The fade window is not empty when the start
  time is below the main duration and the computed sum of the start time and the
  specified duration is above the start time.
\<close>

theorem placement_within_main:
  "(ToNumber (or_default (timestamp m) (Number (Fin 0))) = Fin t
      \<and> js_minus (Fin d) (Fin t) = Fin r
      \<and> duration_plain (Fin d) m = Fin x
    \<longrightarrow> x \<le> r \<and> t + x \<le> d + (\<bar>d - t\<bar> / 2 ^ 53 + 2 powi (- 1075))
        \<and> (d \<le> t \<longrightarrow> x \<le> 0))
   \<and> (endTime_fade (Fin d) m = Fin e \<longrightarrow> e \<le> d)
   \<and> (timestamp m = Number (Fin t) \<and> t < 0
    \<longrightarrow> ToNumber (or_default (timestamp m) (Number (Fin 0))) = Fin t
        \<and> startTime_fade m = Fin t)
   \<and> (ToNumber (or_default (timestamp m) (Number (Fin 0))) = Fin t \<and> 0 \<le> t
      \<and> js_minus (Fin d) (Fin t) = Fin r \<and> 0 < r
      \<and> (\<not> truthy (duration m) \<or> (\<exists>dd. duration m = Number (Fin dd) \<and> 0 < dd))
    \<longrightarrow> (\<exists>y. duration_plain (Fin d) m = Fin y \<and> 0 < y))
   \<and> (startTime_fade m = Fin t \<and> t < d
      \<and> js_plus (startTime_fade m) (specifiedDuration_fade (Fin d) m) = Fin u \<and> t < u
    \<longrightarrow> (\<exists>e'. endTime_fade (Fin d) m = Fin e' \<and> t < e'))"
proof -
  have bound: "x \<le> r \<and> t + x \<le> d + (\<bar>d - t\<bar> / 2 ^ 53 + 2 powi (- 1075))
      \<and> (d \<le> t \<longrightarrow> x \<le> 0)"
    if t: "ToNumber (or_default (timestamp m) (Number (Fin 0))) = Fin t"
      and r: "js_minus (Fin d) (Fin t) = Fin r"
      and x: "duration_plain (Fin d) m = Fin x"
  proof -
    have "duration_plain (Fin d) m =
        Math_min (ToNumber (or_default (duration m) (Number (Fin d)))) (Fin r)"
      by (simp only: duration_plain_def t r)
    with x have "Math_min (ToNumber (or_default (duration m) (Number (Fin d)))) (Fin r) = Fin x"
      by simp
    then have xr: "x \<le> r"
      by (cases "ToNumber (or_default (duration m) (Number (Fin d)))") auto
    have "binary64 (d - t) = Fin r"
      using r by (simp add: js_minus_def)
    then have err: "\<bar>r - (d - t)\<bar> \<le> \<bar>d - t\<bar> / 2 ^ 53 + 2 powi (- 1075)"
      and sign: "0 < r \<Longrightarrow> 0 < d - t"
      by (rule binary64_error, rule binary64_pos)
    from sign have "r \<le> 0" if "d \<le> t"
      using that by (cases "0 < r") auto
    with xr err show ?thesis by auto
  qed
  have kept: "ToNumber (or_default (timestamp m) (Number (Fin 0))) = Fin t
      \<and> startTime_fade m = Fin t"
    if "timestamp m = Number (Fin t)" "t < 0"
    using that by (simp add: or_default_def startTime_fade_def)
  have fade: "e \<le> d" if "endTime_fade (Fin d) m = Fin e"
    using that unfolding endTime_fade_def
    by (cases "js_plus (startTime_fade m) (specifiedDuration_fade (Fin d) m)") auto
  have positive: "\<exists>y. duration_plain (Fin d) m = Fin y \<and> 0 < y"
    if t: "ToNumber (or_default (timestamp m) (Number (Fin 0))) = Fin t" "0 \<le> t"
      and r: "js_minus (Fin d) (Fin t) = Fin r" "0 < r"
      and dur: "\<not> truthy (duration m) \<or> (\<exists>dd. duration m = Number (Fin dd) \<and> 0 < dd)"
  proof -
    have "binary64 (d - t) = Fin r"
      using r(1) by (simp add: js_minus_def)
    then have "0 < d - t" using r(2) by (rule binary64_pos)
    then have d: "0 < d" using t(2) by simp
    have eq: "duration_plain (Fin d) m =
        Math_min (ToNumber (or_default (duration m) (Number (Fin d)))) (Fin r)"
      by (simp only: duration_plain_def t(1) r(1))
    from dur show ?thesis
    proof
      assume "\<not> truthy (duration m)"
      then show ?thesis
        using d r(2) by (simp add: eq or_default_def)
    next
      assume "\<exists>dd. duration m = Number (Fin dd) \<and> 0 < dd"
      then show ?thesis
        using r(2) by (auto simp: eq or_default_def)
    qed
  qed
  have window: "\<exists>e'. endTime_fade (Fin d) m = Fin e' \<and> t < e'"
    if "startTime_fade m = Fin t" "t < d"
      and "js_plus (startTime_fade m) (specifiedDuration_fade (Fin d) m) = Fin u" "t < u"
    using that by (simp add: endTime_fade_def)
  from bound fade kept positive window show ?thesis by blast
qed

text \<open>
  A clip at 5 seconds for 3 seconds in a main track of 30 seconds: the plain span is 3
  and the fade window ends at 8.
\<close>

theorem placement_within_main_witness:
  "duration_plain (Fin 30) \<lparr>timestamp = Number (Fin 5), duration = Number (Fin 3), volume = Undefined\<rparr> = Fin 3
   \<and> endTime_fade (Fin 30) \<lparr>timestamp = Number (Fin 5), duration = Number (Fin 3), volume = Undefined\<rparr> = Fin 8
   \<and> (5::real) + 3 \<le> 30 + (\<bar>30 - 5\<bar> / 2 ^ 53 + 2 powi (- 1075))"
proof -
  have t: "ToNumber (or_default (timestamp \<lparr>timestamp = Number (Fin 5), duration = Number (Fin 3), volume = Undefined\<rparr>) (Number (Fin 0))) = Fin 5"
    by (simp add: or_default_def)
  have r: "js_minus (Fin 30) (Fin 5) = Fin 25"
    by (simp add: js_minus_def binary64_numeral)
  have x: "duration_plain (Fin 30) \<lparr>timestamp = Number (Fin 5), duration = Number (Fin 3), volume = Undefined\<rparr> = Fin 3"
    by (simp add: duration_plain_def or_default_def r)
  have s: "startTime_fade \<lparr>timestamp = Number (Fin 5), duration = Number (Fin 3), volume = Undefined\<rparr> = Fin 5"
    by (simp add: startTime_fade_def or_default_def)
  have e: "endTime_fade (Fin 30) \<lparr>timestamp = Number (Fin 5), duration = Number (Fin 3), volume = Undefined\<rparr> = Fin 8"
    by (simp add: endTime_fade_def specifiedDuration_fade_def s or_default_def
          binary64_numeral)
  from placement_within_main [of "\<lparr>timestamp = Number (Fin 5), duration = Number (Fin 3), volume = Undefined\<rparr>" 5 30 25 3 8 8] t r x e
  show ?thesis by simp
qed

text \<open>
  In a main track of 30 seconds, a clip at 40 seconds gets the span -10 in the plain
  variant and the window from 40 to 30 in the fade variant; a clip at -5 seconds is
  delayed by -5000 milliseconds.
\<close>

theorem placement_span_not_positive:
  "filters (clip_chain_plain (Fin 30) [Some \<lparr>timestamp = Number (Fin 40), duration = Undefined, volume = Undefined\<rparr>] 0)
     = [Volume (Fin 1), Atrim_duration (Fin (- 10)), Asetpts_startpts,
        Adelay [Fin 40000, Fin 40000]]
   \<and> filters (clip_chain_plain (Fin 30) [Some \<lparr>timestamp = Number (Fin (- 5)), duration = Number (Fin 3), volume = Undefined\<rparr>] 0)
     = [Volume (Fin 1), Atrim_duration (Fin 3), Asetpts_startpts,
        Adelay [Fin (- 5000), Fin (- 5000)]]
   \<and> clip_chains_fade (Fin 30) [Some \<lparr>timestamp = Number (Fin 40), duration = Undefined, volume = Undefined\<rparr>] 0
     = [\<lparr>ins = [Stream 1],
         filters = [Atrim (Fin 40) (Fin 30), Asetpts_startpts, Volume (Fin 1),
                    Afade_out (Fin (- 21 / 2)) (Fin (1 / 2))],
         outl = Bg 1\<rparr>,
        \<lparr>ins = [Bg 1], filters = [Adelay [Fin 40000, Fin 40000]], outl = DelayedBg 1\<rparr>]"
proof -
  have "binary64 (- 21 / 2) = Fin (- 21 / 2)"
    using binary64_exact [of "- 21 / 2" "- 21" "- 1"] by simp
  then show ?thesis
    by (simp add: clip_chain_plain_def clip_chains_fade_def metadata_at_def Let_def
          delay_plain_def volume_plain_def duration_plain_def or_default_def
          startTime_fade_def volume_fade_def endTime_fade_def specifiedDuration_fade_def
          js_times_def js_minus_def binary64_numeral binary64_neg_numeral)
qed

text \<open>
  Claim C6, as the code has it. The resolved gain is the same in the plain and in the
  fade variant, and it is never above 1: it is a number that is at most 1, minus
  infinity or \<open>NaN\<close>. An absent volume, like every other falsy value (\<open>null\<close>, \<open>false\<close>,
  0, the empty string), gives 1. A number above 1 gives 1, a number above 0 and at
  most 1 gives itself, so that the gain is in (0, 1] for every volume that is absent
  or a number that is not negative. A negative number gives itself: there is no
  clamp from below. A truthy value that is not a number is converted by \<open>Math.min\<close>,
  and the gain is the lesser of that number and 1.
\<close>

theorem resolved_gain_bounds:
  "volume_fade m = volume_plain m
   \<and> volume_plain m \<noteq> PosInf
   \<and> (volume_plain m = Fin g \<longrightarrow> g \<le> 1)
   \<and> (\<not> truthy (volume m) \<longrightarrow> volume_plain m = Fin 1)
   \<and> (volume m = Number (Fin v) \<longrightarrow>
         (v = 0 \<longrightarrow> volume_plain m = Fin 1)
       \<and> (1 < v \<longrightarrow> volume_plain m = Fin 1)
       \<and> (0 < v \<and> v \<le> 1 \<longrightarrow> volume_plain m = Fin v)
       \<and> (0 \<le> v \<longrightarrow> (\<exists>g'. volume_plain m = Fin g' \<and> 0 < g' \<and> g' \<le> 1))
       \<and> (v < 0 \<longrightarrow> volume_plain m = Fin v))
   \<and> (truthy (volume m) \<longrightarrow> volume_plain m = Math_min (ToNumber (volume m)) (Fin 1))"
proof -
  have same: "volume_fade m = volume_plain m"
    by (simp add: volume_fade_def volume_plain_def)
  have top: "volume_plain m \<noteq> PosInf" "volume_plain m = Fin g \<longrightarrow> g \<le> 1"
    unfolding volume_plain_def
    by (cases "ToNumber (or_default (volume m) (Number (Fin 1)))"; auto)+
  have falsy: "\<not> truthy (volume m) \<longrightarrow> volume_plain m = Fin 1"
    by (simp add: volume_plain_def or_default_def)
  have number: "volume m = Number (Fin v) \<longrightarrow>
         (v = 0 \<longrightarrow> volume_plain m = Fin 1)
       \<and> (1 < v \<longrightarrow> volume_plain m = Fin 1)
       \<and> (0 < v \<and> v \<le> 1 \<longrightarrow> volume_plain m = Fin v)
       \<and> (0 \<le> v \<longrightarrow> (\<exists>g'. volume_plain m = Fin g' \<and> 0 < g' \<and> g' \<le> 1))
       \<and> (v < 0 \<longrightarrow> volume_plain m = Fin v)"
    by (auto simp: volume_plain_def or_default_def)
  have other: "truthy (volume m) \<longrightarrow> volume_plain m = Math_min (ToNumber (volume m)) (Fin 1)"
    by (simp add: volume_plain_def or_default_def)
  from same top falsy number other show ?thesis by blast
qed

theorem resolved_gain_bounds_witness:
  "volume_plain \<lparr>timestamp = Undefined, duration = Undefined, volume = Undefined\<rparr> = Fin 1
   \<and> volume_fade \<lparr>timestamp = Undefined, duration = Undefined, volume = Number (Fin 2)\<rparr> = Fin 1
   \<and> volume_fade \<lparr>timestamp = Undefined, duration = Undefined, volume = Number (Fin (1/4))\<rparr> = Fin (1/4)
   \<and> volume_plain \<lparr>timestamp = Undefined, duration = Undefined, volume = Number (Fin (- 1/2))\<rparr> = Fin (- 1/2)
   \<and> volume_plain \<lparr>timestamp = Undefined, duration = Undefined, volume = Number (Fin 0)\<rparr> = Fin 1
   \<and> volume_plain \<lparr>timestamp = Undefined, duration = Undefined, volume = Text ''0'' (Fin 0) (Fin 0)\<rparr> = Math_min (Fin 0) (Fin 1)"
  using resolved_gain_bounds [of "\<lparr>timestamp = Undefined, duration = Undefined, volume = Undefined\<rparr>" 0 0]
        resolved_gain_bounds [of "\<lparr>timestamp = Undefined, duration = Undefined, volume = Number (Fin 2)\<rparr>" 0 2]
        resolved_gain_bounds [of "\<lparr>timestamp = Undefined, duration = Undefined, volume = Number (Fin (1/4))\<rparr>" 0 "1/4"]
        resolved_gain_bounds [of "\<lparr>timestamp = Undefined, duration = Undefined, volume = Number (Fin (- 1/2))\<rparr>" 0 "- 1/2"]
        resolved_gain_bounds [of "\<lparr>timestamp = Undefined, duration = Undefined, volume = Number (Fin 0)\<rparr>" 0 0]
        resolved_gain_bounds [of "\<lparr>timestamp = Undefined, duration = Undefined, volume = Text ''0'' (Fin 0) (Fin 0)\<rparr>" 0 0]
  by simp

text \<open>A volume of -1/2 resolves to the gain -1/2, which is not in (0, 1].\<close>

theorem negative_volume_kept:
  "volume_plain (metadata_at [Some \<lparr>timestamp = Undefined, duration = Undefined, volume = Number (Fin (- 1/2))\<rparr>] 0)
     = Fin (- 1/2)"
  by (simp add: volume_plain_def or_default_def metadata_at_def)

text \<open>
  Claim C10, as the code has it. A volume that is the number 0 is falsy, so the
  default 1 is taken before the clamp and the clip is emitted at full volume, in both
  variants. No volume that is a number, and no falsy volume, gives a volume filter
  with the gain 0. A truthy value that is not a number can: the gain is what
  \<open>Math.min\<close> converts it to.
\<close>

theorem zero_volume_resolves_to_full:
  "(volume (metadata_at md i) = Number (Fin 0) \<longrightarrow>
      filters (clip_chain_plain D md i) ! 0 = Volume (Fin 1)
      \<and> filters (clip_chains_fade D md i ! 0) ! 2 = Volume (Fin 1))
   \<and> (volume (metadata_at md i) = Number n \<or> volume (metadata_at md i) = Undefined
       \<or> volume (metadata_at md i) = Null \<or> volume (metadata_at md i) = Boolean False
       \<or> volume (metadata_at md i) = Text [] a b \<longrightarrow>
      Volume (Fin 0) \<notin> set (filters (clip_chain_plain D md i))
      \<and> Volume (Fin 0) \<notin> set (concat (map filters (clip_chains_fade D md i))))
   \<and> (truthy (volume (metadata_at md i)) \<longrightarrow>
      filters (clip_chain_plain D md i) ! 0 =
        Volume (Math_min (ToNumber (volume (metadata_at md i))) (Fin 1))
      \<and> filters (clip_chains_fade D md i ! 0) ! 2 =
        Volume (Math_min (ToNumber (volume (metadata_at md i))) (Fin 1)))"
proof -
  have zero: "volume (metadata_at md i) = Number (Fin 0) \<longrightarrow>
      filters (clip_chain_plain D md i) ! 0 = Volume (Fin 1)
      \<and> filters (clip_chains_fade D md i ! 0) ! 2 = Volume (Fin 1)"
    by (simp add: clip_chain_plain_def clip_chains_fade_def Let_def volume_fade_def
          volume_plain_def or_default_def)
  have never: "Volume (Fin 0) \<notin> set (filters (clip_chain_plain D md i))
      \<and> Volume (Fin 0) \<notin> set (concat (map filters (clip_chains_fade D md i)))"
    if "volume (metadata_at md i) = Number n \<or> volume (metadata_at md i) = Undefined
       \<or> volume (metadata_at md i) = Null \<or> volume (metadata_at md i) = Boolean False
       \<or> volume (metadata_at md i) = Text [] a b"
  proof -
    have "Math_min (ToNumber (or_default (volume (metadata_at md i)) (Number (Fin 1)))) (Fin 1)
            \<noteq> Fin 0"
      using that by (cases n) (auto simp: or_default_def)
    then show ?thesis
      by (simp add: clip_chain_plain_def clip_chains_fade_def Let_def volume_fade_def
            volume_plain_def)
  qed
  have other: "truthy (volume (metadata_at md i)) \<longrightarrow>
      filters (clip_chain_plain D md i) ! 0 =
        Volume (Math_min (ToNumber (volume (metadata_at md i))) (Fin 1))
      \<and> filters (clip_chains_fade D md i ! 0) ! 2 =
        Volume (Math_min (ToNumber (volume (metadata_at md i))) (Fin 1))"
    by (simp add: clip_chain_plain_def clip_chains_fade_def Let_def volume_fade_def
          volume_plain_def or_default_def)
  from zero never other show ?thesis by blast
qed

theorem zero_volume_resolves_to_full_witness:
  "filters (clip_chain_plain (Fin 30) [Some \<lparr>timestamp = Undefined, duration = Undefined, volume = Number (Fin 0)\<rparr>] 0) ! 0 = Volume (Fin 1)
   \<and> filters (clip_chains_fade (Fin 30) [Some \<lparr>timestamp = Undefined, duration = Undefined, volume = Number (Fin 0)\<rparr>] 0 ! 0) ! 2 = Volume (Fin 1)
   \<and> Volume (Fin 0) \<notin> set (filters (clip_chain_plain (Fin 30) [Some \<lparr>timestamp = Undefined, duration = Undefined, volume = Number (Fin 0)\<rparr>] 0))"
  using zero_volume_resolves_to_full [of "[Some \<lparr>timestamp = Undefined, duration = Undefined, volume = Number (Fin 0)\<rparr>]" 0 "Fin 30" "Fin 0" NaN NaN]
  by (simp add: metadata_at_def)

text \<open>
  The string \<open>"0"\<close> as volume is truthy, so it is kept, and \<open>Math.min\<close> reads it as 0:
  the clip is emitted with \<open>volume=0\<close>, in both variants.
\<close>

theorem string_zero_volume_is_silent:
  "filters (clip_chain_plain (Fin 30) [Some \<lparr>timestamp = Undefined, duration = Undefined, volume = Text ''0'' (Fin 0) (Fin 0)\<rparr>] 0) ! 0 = Volume (Fin 0)
   \<and> filters (clip_chains_fade (Fin 30) [Some \<lparr>timestamp = Undefined, duration = Undefined, volume = Text ''0'' (Fin 0) (Fin 0)\<rparr>] 0 ! 0) ! 2 = Volume (Fin 0)"
  by (simp add: clip_chain_plain_def clip_chains_fade_def metadata_at_def Let_def
        volume_plain_def volume_fade_def or_default_def)

section \<open>Clip chains and plans\<close>

text \<open>
  Claim C3, as the code has it. In the fade variant the stages of a clip are trim,
  gain, fade-out and delay, in that order: the trim runs from the start time to the
  end time, the fade-out is always emitted, lasts half a second and starts half a
  second before the end of the span, and the delay is the start time in
  milliseconds, given once for each of two channels. In the plain variant the stages
  are gain, trim and delay: the gain comes before the trim, the trim keeps the span
  from the beginning of the clip, there is no fade-out, and the delay is again last
  and the same for both channels.
\<close>

theorem clip_chain_stage_order:
  assumes "i < length clips"
  shows "(\<exists>cmd. processAudio_fade p clips md out (Inr D) = Inr cmd
            \<and> take 2 (drop (2 * i) (complexFilter cmd)) = clip_chains_fade D md i)
   \<and> stages (clip_chains_fade D md i) = [Trim, Gain, FadeOut, Delay]
   \<and> concat (map filters (clip_chains_fade D md i)) =
       [Atrim (startTime_fade (metadata_at md i)) (endTime_fade D (metadata_at md i)),
        Asetpts_startpts,
        Volume (volume_fade (metadata_at md i)),
        Afade_out
          (js_minus (js_minus (endTime_fade D (metadata_at md i)) (startTime_fade (metadata_at md i)))
             (Fin 0.5))
          (Fin 0.5),
        Adelay [js_times (startTime_fade (metadata_at md i)) (Fin 1000),
                js_times (startTime_fade (metadata_at md i)) (Fin 1000)]]
   \<and> (\<exists>cmd. processAudio_plain p clips md out (Inr D) = Inr cmd
            \<and> complexFilter cmd ! i = clip_chain_plain D md i)
   \<and> stages [clip_chain_plain D md i] = [Gain, Trim, Delay]
   \<and> filters (clip_chain_plain D md i) =
       [Volume (volume_plain (metadata_at md i)),
        Atrim_duration (duration_plain D (metadata_at md i)),
        Asetpts_startpts,
        Adelay [js_times (ToNumber (or_default (timestamp (metadata_at md i)) (Number (Fin 0))))
                  (Fin 1000),
                js_times (ToNumber (or_default (timestamp (metadata_at md i)) (Number (Fin 0))))
                  (Fin 1000)]]"
proof -
  have kinds: "stages (clip_chains_fade D md i) = [Trim, Gain, FadeOut, Delay]"
      "stages [clip_chain_plain D md i] = [Gain, Trim, Delay]"
    by (simp_all add: stages_def List.map_filter_simps clip_chains_fade_def
          clip_chain_plain_def Let_def)
  have args: "concat (map filters (clip_chains_fade D md i)) =
       [Atrim (startTime_fade (metadata_at md i)) (endTime_fade D (metadata_at md i)),
        Asetpts_startpts,
        Volume (volume_fade (metadata_at md i)),
        Afade_out
          (js_minus (js_minus (endTime_fade D (metadata_at md i)) (startTime_fade (metadata_at md i)))
             (Fin 0.5))
          (Fin 0.5),
        Adelay [js_times (startTime_fade (metadata_at md i)) (Fin 1000),
                js_times (startTime_fade (metadata_at md i)) (Fin 1000)]]"
      "filters (clip_chain_plain D md i) =
       [Volume (volume_plain (metadata_at md i)),
        Atrim_duration (duration_plain D (metadata_at md i)),
        Asetpts_startpts,
        Adelay [js_times (ToNumber (or_default (timestamp (metadata_at md i)) (Number (Fin 0))))
                  (Fin 1000),
                js_times (ToNumber (or_default (timestamp (metadata_at md i)) (Number (Fin 0))))
                  (Fin 1000)]]"
    by (simp_all add: clip_chains_fade_def clip_chain_plain_def Let_def delay_plain_def)
  from fade_plan_clip [OF assms] plain_plan_clip [OF assms] kinds args
  show ?thesis by blast
qed

theorem clip_chain_stage_order_witness:
  "stages (clip_chains_fade (Fin 30) [Some \<lparr>timestamp = Number (Fin 5), duration = Number (Fin 3), volume = Number (Fin (1/2))\<rparr>] 0) = [Trim, Gain, FadeOut, Delay]
   \<and> stages [clip_chain_plain (Fin 30) [Some \<lparr>timestamp = Number (Fin 5), duration = Number (Fin 3), volume = Number (Fin (1/2))\<rparr>] 0] = [Gain, Trim, Delay]
   \<and> (\<exists>cmd. processAudio_plain (UploadsDir, ''m.aac'') [\<lparr>path = (UploadsDir, ''a.aac''), originalname = ''a.aac''\<rparr>] [Some \<lparr>timestamp = Number (Fin 5), duration = Number (Fin 3), volume = Number (Fin (1/2))\<rparr>] (PublicDir, ''m.aac'')
               (Inr (Fin 30)) = Inr cmd
            \<and> complexFilter cmd ! 0 = clip_chain_plain (Fin 30) [Some \<lparr>timestamp = Number (Fin 5), duration = Number (Fin 3), volume = Number (Fin (1/2))\<rparr>] 0)"
  using clip_chain_stage_order
          [of 0 "[\<lparr>path = (UploadsDir, ''a.aac''), originalname = ''a.aac''\<rparr>]" "(UploadsDir, ''m.aac'')" "[Some \<lparr>timestamp = Number (Fin 5), duration = Number (Fin 3), volume = Number (Fin (1/2))\<rparr>]" "(PublicDir, ''m.aac'')" "Fin 30"]
  by simp

text \<open>
  The clip of the specification's scenario, at 5 seconds for 3 seconds at half volume,
  in the plain variant: the volume filter stands before the trim.
\<close>

theorem plain_chain_gain_before_trim:
  "stages [clip_chain_plain (Fin 30) [Some \<lparr>timestamp = Number (Fin 5), duration = Number (Fin 3), volume = Number (Fin (1/2))\<rparr>] 0] \<noteq> [Trim, Gain, Delay]
   \<and> filters (clip_chain_plain (Fin 30) [Some \<lparr>timestamp = Number (Fin 5), duration = Number (Fin 3), volume = Number (Fin (1/2))\<rparr>] 0)
     = [Volume (Fin (1/2)), Atrim_duration (Fin 3), Asetpts_startpts,
        Adelay [Fin 5000, Fin 5000]]"
  by (simp add: stages_def List.map_filter_simps clip_chain_plain_def metadata_at_def Let_def
       delay_plain_def volume_plain_def duration_plain_def or_default_def
       js_times_def js_minus_def binary64_numeral)

text \<open>
  Claim C4. In the plain variant, whatever the main duration, the clips and their
  metadata, the command asks for an output as long as the main track: the last chain
  mixes the main track and the delayed clips for as long as its first input lasts
  and then trims to the main duration, and the output duration of the command is
  the main duration too. With no clip the mix has the main track as its one input.
\<close>

theorem plain_plan_matches_main_duration:
  "\<exists>cmd. processAudio_plain mainAudioPath clips md outputPath (Inr mainDuration) = Inr cmd
     \<and> outDuration cmd = Some mainDuration
     \<and> mapped cmd = Out
     \<and> last (complexFilter cmd) =
         \<lparr>ins = Stream 0 # map Delayed [1 ..< Suc (length clips)],
          filters = [Amix (Suc (length clips)) [Duration First], Atrim_duration mainDuration],
          outl = Out\<rparr>"
  by (simp add: processAudio_plain_Inr del: upt_Suc)

theorem plain_plan_matches_main_duration_witness:
  "\<exists>cmd. processAudio_plain (UploadsDir, ''m.aac'') [] [] (PublicDir, ''m.aac'') (Inr (Fin 30))
            = Inr cmd
     \<and> outDuration cmd = Some (Fin 30)
     \<and> complexFilter cmd =
         [\<lparr>ins = [Stream 0], filters = [Amix 1 [Duration First], Atrim_duration (Fin 30)],
           outl = Out\<rparr>]"
  using plain_plan_matches_main_duration
          [of "(UploadsDir, ''m.aac'')" "[]" "[]" "(PublicDir, ''m.aac'')" "Fin 30"]
  by (auto simp: processAudio_plain_def)



text \<open>
  Why the numbers of \<open>Math.random\<close> are part of the input: the random variant run
  twice on the same main track of 30 seconds and the same clip, \<open>Math.random\<close>
  returning 0 the first time and 1/2 the second time, delays the clip by 0 and by
  13000 milliseconds.
\<close>

lemma random_plans_differ:
  "map_option complexFilter (started (processAudio_random (UploadsDir, ''m.aac'')
       [(UploadsDir, ''a.aac'')] (PublicDir, ''out.aac'') (\<lambda>p. True) (Inr (Fin 30)) (\<lambda>k. 0)))
   \<noteq> map_option complexFilter (started (processAudio_random (UploadsDir, ''m.aac'')
       [(UploadsDir, ''a.aac'')] (PublicDir, ''out.aac'') (\<lambda>p. True) (Inr (Fin 30)) (\<lambda>k. 1 / 2)))"
  by (simp add: processAudio_random_started clip_chain_random_def delay_random_def Let_def
        js_times_def js_minus_def binary64_numeral binary64_zero)

section \<open>Metadata that is not a list\<close>

text \<open>
  Claim C7, as the code has it. For a request with a main file and clips: a metadata
  text that is not empty and on which \<open>JSON.parse\<close> throws is answered with status 400
  and the text \<open>Invalid background audio metadata format\<close>, and \<open>processAudio\<close> is not
  called. A text that \<open>JSON.parse\<close> reads is accepted with the value read, list or
  not. An absent or empty text stands for the empty list.
\<close>

theorem malformed_metadata_rejected:
  assumes "files req = Some fs"
    and "mainAudio fs = Some (mainAudioFile # others)"
    and "backgroundAudios fs = Some clips"
  shows "(backgroundAudioMetadata req = Some (Not_json s) \<and> s \<noteq> [] \<longrightarrow>
            post_process req = Respond 400 ''Invalid background audio metadata format'')
       \<and> (backgroundAudioMetadata req = Some (Json_text v) \<longrightarrow>
            post_process req = Call_processAudio mainAudioFile clips v)
       \<and> (backgroundAudioMetadata req = None \<or> backgroundAudioMetadata req = Some (Not_json []) \<longrightarrow>
            post_process req = Call_processAudio mainAudioFile clips (JArr []))"
  using assms by (auto simp: post_process_def truthy_text_def JSON_parse_def)

theorem malformed_metadata_rejected_witness:
  "post_process
     \<lparr>files = Some \<lparr>mainAudio = Some [\<lparr>path = (UploadsDir, ''m.aac''), originalname = ''m.aac''\<rparr>],
                      backgroundAudios = Some [\<lparr>path = (UploadsDir, ''a.aac''), originalname = ''a.aac''\<rparr>]\<rparr>,
        backgroundAudioMetadata = Some (Not_json ''[{'')\<rparr>
     = Respond 400 ''Invalid background audio metadata format''"
  using malformed_metadata_rejected
          [of "\<lparr>files = Some \<lparr>mainAudio = Some [\<lparr>path = (UploadsDir, ''m.aac''), originalname = ''m.aac''\<rparr>],
                      backgroundAudios = Some [\<lparr>path = (UploadsDir, ''a.aac''), originalname = ''a.aac''\<rparr>]\<rparr>,
        backgroundAudioMetadata = Some (Not_json ''[{'')\<rparr>"
              "\<lparr>mainAudio = Some [\<lparr>path = (UploadsDir, ''m.aac''), originalname = ''m.aac''\<rparr>],
                backgroundAudios = Some [\<lparr>path = (UploadsDir, ''a.aac''), originalname = ''a.aac''\<rparr>]\<rparr>"
              "\<lparr>path = (UploadsDir, ''m.aac''), originalname = ''m.aac''\<rparr>" "[]" "[\<lparr>path = (UploadsDir, ''a.aac''), originalname = ''a.aac''\<rparr>]" "''[{''" JNull]
  by simp

text \<open>
  The text \<open>5\<close> is read as a number, not a list, and the request goes on to
  \<open>processAudio\<close> with it; the empty text, on which \<open>JSON.parse\<close> would throw, is never
  parsed and the request goes on with the empty list.
\<close>

theorem non_list_metadata_accepted:
  "post_process
     \<lparr>files = Some \<lparr>mainAudio = Some [\<lparr>path = (UploadsDir, ''m.aac''), originalname = ''m.aac''\<rparr>],
                      backgroundAudios = Some [\<lparr>path = (UploadsDir, ''a.aac''), originalname = ''a.aac''\<rparr>]\<rparr>,
        backgroundAudioMetadata = Some (Json_text (JNum 5))\<rparr>
     = Call_processAudio \<lparr>path = (UploadsDir, ''m.aac''), originalname = ''m.aac''\<rparr> [\<lparr>path = (UploadsDir, ''a.aac''), originalname = ''a.aac''\<rparr>] (JNum 5)
   \<and> post_process
     \<lparr>files = Some \<lparr>mainAudio = Some [\<lparr>path = (UploadsDir, ''m.aac''), originalname = ''m.aac''\<rparr>],
                      backgroundAudios = Some [\<lparr>path = (UploadsDir, ''a.aac''), originalname = ''a.aac''\<rparr>]\<rparr>,
        backgroundAudioMetadata = Some (Not_json '''')\<rparr>
     = Call_processAudio \<lparr>path = (UploadsDir, ''m.aac''), originalname = ''m.aac''\<rparr> [\<lparr>path = (UploadsDir, ''a.aac''), originalname = ''a.aac''\<rparr>] (JArr [])"
  by (simp add: post_process_def truthy_text_def JSON_parse_def)

end
